theory Spec2Isabelle
  imports Complex_Main "HOL-Library.Word" "HOL-Library.Signed_Division"
begin

unbundle bit_operations_syntax

section \<open>The parts of Go's image library the program calls\<close>

text \<open>
  The program stores a decoded picture as an \<^verbatim>\<open>image.Image\<close> interface value and
  builds the flipped picture with \<^verbatim>\<open>image.NewRGBA\<close> and \<^verbatim>\<open>(*image.RGBA).Set\<close>.
  What the program observes of these library values is modelled here.

  A \<^verbatim>\<open>color.Color\<close> is an interface value with one method, \<^verbatim>\<open>RGBA()\<close>, returning
  four alpha-premultiplied 16-bit channels in \<^verbatim>\<open>uint32\<close>s. Three concrete colour
  types of the library are modelled by their fields; every other implementation is
  \<open>OtherColor\<close>, carrying the name of its type and what its \<^verbatim>\<open>RGBA()\<close> returns.
\<close>

type_synonym u8 = "8 word"
type_synonym u32 = "32 word"

datatype color =
    RGBA u8 u8 u8 u8
  | NRGBA u8 u8 u8 u8
  | Gray u8
  | OtherColor string u32 u32 u32 u32

text \<open>
  The method \<^verbatim>\<open>RGBA()\<close> of each colour type:
  \<^verbatim>\<open>
  func (c RGBA) RGBA() (r, g, b, a uint32) {
      r = uint32(c.R); r |= r << 8  ...  a = uint32(c.A); a |= a << 8 }
  func (c NRGBA) RGBA() (r, g, b, a uint32) {
      r = uint32(c.R); r |= r << 8; r *= uint32(c.A); r /= 0xff  ...
      a = uint32(c.A); a |= a << 8 }
  func (c Gray) RGBA() (r, g, b, a uint32) {
      y := uint32(c.Y); y |= y << 8; return y, y, y, 0xffff }
  \<close>
\<close>

definition widen :: "u8 \<Rightarrow> u32" where
  "widen v = (ucast v :: u32) OR push_bit 8 (ucast v)"

definition premul :: "u8 \<Rightarrow> u8 \<Rightarrow> u32" where
  "premul v a = (widen v * ucast a) div 0xff"

fun channels :: "color \<Rightarrow> u32 \<times> u32 \<times> u32 \<times> u32" where
  "channels (RGBA r g b a) = (widen r, widen g, widen b, widen a)"
| "channels (NRGBA r g b a) = (premul r a, premul g a, premul b a, widen a)"
| "channels (Gray y) = (widen y, widen y, widen y, 0xffff)"
| "channels (OtherColor n r g b a) = (r, g, b, a)"

text \<open>
  \<^verbatim>\<open>color.RGBAModel.Convert\<close>:
  \<^verbatim>\<open>
  func rgbaModel(c Color) Color {
      if _, ok := c.(RGBA); ok { return c }
      r, g, b, a := c.RGBA()
      return RGBA{uint8(r >> 8), uint8(g >> 8), uint8(b >> 8), uint8(a >> 8)} }
  \<close>
\<close>

definition high_byte :: "u32 \<Rightarrow> u8" where
  "high_byte v = ucast (drop_bit 8 v)"

fun rgbaModel :: "color \<Rightarrow> color" where
  "rgbaModel (RGBA r g b a) = RGBA r g b a"
| "rgbaModel c =
     (case channels c of (r, g, b, a) \<Rightarrow>
        RGBA (high_byte r) (high_byte g) (high_byte b) (high_byte a))"

datatype colorModel = RGBAModel | NRGBAModel | GrayModel | OtherModel string

text \<open>
  \<^verbatim>\<open>image.Point\<close> and \<^verbatim>\<open>image.Rectangle\<close>. Go's \<^verbatim>\<open>int\<close> is 64 bits wide; the
  coordinates of a picture that fits in memory are far from its limits, so they are
  unbounded integers here.
\<close>

record point =
  X :: int
  Y :: int

record rectangle =
  Min_pt :: point
  Max_pt :: point

definition Size :: "rectangle \<Rightarrow> point" where
  "Size r = \<lparr>X = X (Max_pt r) - X (Min_pt r), Y = Y (Max_pt r) - Y (Min_pt r)\<rparr>"

definition point_In :: "int \<Rightarrow> int \<Rightarrow> rectangle \<Rightarrow> bool" where
  "point_In x y r \<longleftrightarrow>
     X (Min_pt r) \<le> x \<and> x < X (Max_pt r) \<and> Y (Min_pt r) \<le> y \<and> y < Y (Max_pt r)"

text \<open>
  An \<^verbatim>\<open>image.Image\<close> value offers \<^verbatim>\<open>ColorModel()\<close>, \<^verbatim>\<open>Bounds()\<close> and
  \<^verbatim>\<open>At(x, y)\<close>.
\<close>

record image =
  ColorModel :: colorModel
  Bounds :: rectangle
  At :: "int \<Rightarrow> int \<Rightarrow> color"

text \<open>
  \<^verbatim>\<open>image.NewRGBA(r)\<close> panics when the rectangle has a negative width or height and
  otherwise allocates a zeroed pixel buffer: every sample reads \<^verbatim>\<open>color.RGBA{0,0,0,0}\<close>.
  \<^verbatim>\<open>Set\<close> ignores a point outside the rectangle and stores the colour converted by
  \<^verbatim>\<open>color.RGBAModel\<close> otherwise.
\<close>

definition NewRGBA :: "rectangle \<Rightarrow> image option" where
  "NewRGBA r =
     (if X (Size r) < 0 \<or> Y (Size r) < 0 then None
      else Some \<lparr>ColorModel = RGBAModel, Bounds = r, At = (\<lambda>x y. RGBA 0 0 0 0)\<rparr>)"

definition Set_px :: "image \<Rightarrow> int \<Rightarrow> int \<Rightarrow> color \<Rightarrow> image" where
  "Set_px p x y c =
     (if \<not> point_In x y (Bounds p) then p
      else p\<lparr>At := (At p)(x := (At p x)(y := rgbaModel c))\<rparr>)"

section \<open>The tracked image and its operations\<close>

text \<open>
  \<^verbatim>\<open>type TrackedImage struct { filepath string; format string; data image.Image }\<close>;
  a nil \<^verbatim>\<open>data\<close> is \<open>None\<close>.
\<close>

record TrackedImage =
  filepath :: string
  format :: string
  data :: "image option"

definition fresh :: TrackedImage where
  "fresh = \<lparr>filepath = [], format = [], data = None\<rparr>"

text \<open>
  The errors of the program, named as the specification names them:
  \<open>NoImageLoaded\<close> is \<^verbatim>\<open>errors.New("no image data, you must load the image first")\<close>,
  \<open>NotImplemented\<close> is \<^verbatim>\<open>errors.New("horizontal flipping has not been implemented yet")\<close>,
  \<open>UnsupportedFormat f\<close> is \<^verbatim>\<open>fmt.Errorf("unsupported format: %s", f)\<close>,
  \<open>InvalidModifier\<close> is \<^verbatim>\<open>errors.New("unsupported image resize modifier")\<close>, and
  \<open>External m\<close> is an error value handed back by the operating system or a codec.
\<close>

datatype error =
    NoImageLoaded
  | NotImplemented
  | UnsupportedFormat string
  | InvalidModifier
  | External string

text \<open>
  How a method call ends, each time with the state it leaves behind: it returns
  (\<open>None\<close> is Go's nil error), the process is stopped by \<^verbatim>\<open>log.Fatal\<close>, or a
  run-time panic unwinds the call.
\<close>

datatype 's outcome =
    Return "error option" 's
  | Exit error 's
  | Panic 's

text \<open>
  \<^verbatim>\<open>getPixels\<close>: nil without a picture, otherwise one slice per \<open>x\<close> below the
  width, holding \<^verbatim>\<open>At(x, y)\<close> for every \<open>y\<close> below the height.
\<close>

definition getPixels :: "TrackedImage \<Rightarrow> color list list" where
  "getPixels i =
     (case data i of
        None \<Rightarrow> []
      | Some d \<Rightarrow>
          map (\<lambda>x. map (\<lambda>y. At d (int x) (int y)) [0 ..< nat (Y (Size (Bounds d)))])
              [0 ..< nat (X (Size (Bounds d)))])"

text \<open>
  The inner loop of \<^verbatim>\<open>flipVertically\<close>, \<^verbatim>\<open>for y, pixel := range row\<close>, from index
  \<open>y\<close> on; \<open>None\<close> is the index-out-of-range panic of \<^verbatim>\<open>pixels[x][inverseCoordinate]\<close>.
  Go's \<^verbatim>\<open>/\<close> truncates towards zero (\<open>sdiv\<close>).
\<close>

fun swapColumn :: "int \<Rightarrow> color list \<Rightarrow> int \<Rightarrow> int \<Rightarrow> color list \<Rightarrow> image \<Rightarrow> image option" where
  "swapColumn boundsY row x y [] rgba = Some rgba"
| "swapColumn boundsY row x y (pixel # rest) rgba =
     (if y > boundsY sdiv 2 then swapColumn boundsY row x (y + 1) rest rgba
      else
        let inverseCoordinate = boundsY - y - 1 in
        if inverseCoordinate < 0 \<or> int (length row) \<le> inverseCoordinate then None
        else
          let inverse = row ! nat inverseCoordinate in
          swapColumn boundsY row x (y + 1) rest
            (Set_px (Set_px rgba x y inverse) x inverseCoordinate pixel))"

text \<open>The outer loop, \<^verbatim>\<open>for x, row := range pixels\<close>, from index \<open>x\<close> on.\<close>

fun swapColumns :: "int \<Rightarrow> int \<Rightarrow> color list list \<Rightarrow> image \<Rightarrow> image option" where
  "swapColumns boundsY x [] rgba = Some rgba"
| "swapColumns boundsY x (row # rest) rgba =
     (case swapColumn boundsY row x 0 row rgba of
        None \<Rightarrow> None
      | Some rgba' \<Rightarrow> swapColumns boundsY (x + 1) rest rgba')"

definition flipVertically :: "TrackedImage \<Rightarrow> TrackedImage outcome" where
  "flipVertically i =
     (case data i of
        None \<Rightarrow> Return (Some NoImageLoaded) i
      | Some d \<Rightarrow>
          (case NewRGBA (Bounds d) of
             None \<Rightarrow> Panic i
           | Some rgba \<Rightarrow>
               (case swapColumns (Y (Max_pt (Bounds d))) 0 (getPixels i) rgba of
                  None \<Rightarrow> Panic i
                | Some rgba' \<Rightarrow> Return None (i\<lparr>data := Some rgba'\<rparr>))))"

definition flipHorizontally :: "TrackedImage \<Rightarrow> TrackedImage outcome" where
  "flipHorizontally i = Return (Some NotImplemented) i"

definition mirror :: "TrackedImage \<Rightarrow> TrackedImage outcome" where
  "mirror i =
     (case flipVertically i of
        Return (Some err) i1 \<Rightarrow> Return (Some err) i1
      | Return None i1 \<Rightarrow>
          (case flipHorizontally i1 of
             Return (Some err) i2 \<Rightarrow> Return (Some err) i2
           | Return None i2 \<Rightarrow> Return None i2
           | other \<Rightarrow> other)
      | other \<Rightarrow> other)"


text \<open>
  What \<^verbatim>\<open>load\<close> and \<^verbatim>\<open>save\<close> see of the operating system: the contents of
  the files, the paths at which \<^verbatim>\<open>os.Open\<close> and \<^verbatim>\<open>os.Create\<close> are refused
  and the paths whose handle fails to close, each with the error reported.
  \<^verbatim>\<open>os.Create\<close> creates the named file or truncates it when it exists.
\<close>

type_synonym bytes = "u8 list"

record world =
  files :: "string \<rightharpoonup> bytes"
  refused :: "string \<rightharpoonup> error"
  closeFails :: "string \<rightharpoonup> error"

definition os_Open :: "world \<Rightarrow> string \<Rightarrow> error + bytes" where
  "os_Open w p =
     (case refused w p of
        Some err \<Rightarrow> Inl err
      | None \<Rightarrow>
          (case files w p of
             None \<Rightarrow> Inl (External ''no such file or directory'')
           | Some b \<Rightarrow> Inr b))"

definition os_Create :: "world \<Rightarrow> string \<Rightarrow> error + world" where
  "os_Create w p =
     (case refused w p of
        Some err \<Rightarrow> Inl err
      | None \<Rightarrow> Inr (w\<lparr>files := (files w)(p \<mapsto> [])\<rparr>))"

definition file_Write :: "world \<Rightarrow> string \<Rightarrow> bytes \<Rightarrow> world" where
  "file_Write w p bs =
     w\<lparr>files := (files w)(p \<mapsto> (case files w p of None \<Rightarrow> bs | Some old \<Rightarrow> old @ bs))\<rparr>"

fun state_of :: "'s outcome \<Rightarrow> 's" where
  "state_of (Return err s) = s"
| "state_of (Exit err s) = s"
| "state_of (Panic s) = s"

text \<open>
  The deferred function of \<^verbatim>\<open>load\<close> and \<^verbatim>\<open>save\<close> runs when the body is left, by
  a return or by a panic:
  \<^verbatim>\<open>err := file.Close(); if err != nil { log.Fatal(err) }\<close>.
\<close>

definition deferClose :: "world \<Rightarrow> string \<Rightarrow> 's outcome \<Rightarrow> 's outcome" where
  "deferClose w p body =
     (case closeFails w p of
        None \<Rightarrow> body
      | Some err \<Rightarrow> Exit err (state_of body))"

text \<open>
  The codecs are parameters: \<^verbatim>\<open>image.Decode\<close> maps the bytes read to a picture and
  a format name or to an error; \<^verbatim>\<open>png.Encode\<close> and \<^verbatim>\<open>jpeg.Encode\<close> map a picture
  to the bytes they write and the error they return.
\<close>

record codecs =
  image_Decode :: "bytes \<Rightarrow> error + (image \<times> string)"
  png_Encode :: "image \<Rightarrow> bytes \<times> error option"
  jpeg_Encode :: "image \<Rightarrow> bytes \<times> error option"

definition load :: "codecs \<Rightarrow> world \<Rightarrow> TrackedImage \<Rightarrow> string \<Rightarrow> TrackedImage outcome" where
  "load cd w i path =
     (case os_Open w path of
        Inl err \<Rightarrow> Return (Some err) i
      | Inr file \<Rightarrow>
          deferClose w path
            (case image_Decode cd file of
               Inl err \<Rightarrow> Return (Some err) i
             | Inr (decodedImage, fmt) \<Rightarrow>
                 Return None (i\<lparr>filepath := path, format := fmt, data := Some decodedImage\<rparr>)))"

text \<open>
  \<^verbatim>\<open>save\<close>; the state it leaves is the tracked image and the file system. An encoder
  called on a nil picture panics on \<^verbatim>\<open>m.Bounds()\<close>.
\<close>

definition save ::
  "codecs \<Rightarrow> world \<Rightarrow> TrackedImage \<Rightarrow> string option \<Rightarrow> (TrackedImage \<times> world) outcome" where
  "save cd w i path =
     (let p = (case path of None \<Rightarrow> filepath i | Some q \<Rightarrow> q) in
      case os_Create w p of
        Inl err \<Rightarrow> Return (Some err) (i, w)
      | Inr w1 \<Rightarrow>
          deferClose w1 p
            (if format i = ''png'' then
               (case data i of
                  None \<Rightarrow> Panic (i, w1)
                | Some d \<Rightarrow>
                    (case png_Encode cd d of (bs, err) \<Rightarrow> Return err (i, file_Write w1 p bs)))
             else if format i = ''jpeg'' then
               (case data i of
                  None \<Rightarrow> Panic (i, w1)
                | Some d \<Rightarrow>
                    (case jpeg_Encode cd d of (bs, err) \<Rightarrow> Return err (i, file_Write w1 p bs)))
             else Return (Some (UnsupportedFormat (format i))) (i, w1)))"

text \<open>
  A \<^verbatim>\<open>float64\<close> is a finite value, an infinity or a NaN; comparisons of finite
  values compare them exactly and every comparison with a NaN is false. The literals
  \<^verbatim>\<open>0.1\<close> and \<^verbatim>\<open>1.01\<close> of \<^verbatim>\<open>resize\<close> denote the nearest \<^verbatim>\<open>float64\<close> values,
  \<open>3602879701896397 / 2\<^sup>5\<^sup>5\<close> and \<open>4548635623644201 / 2\<^sup>5\<^sup>2\<close>; \<^verbatim>\<open>1.00\<close> is exact.
\<close>

datatype float64 = Finite real | PosInf | NegInf | NaN

fun f64_less :: "float64 \<Rightarrow> float64 \<Rightarrow> bool" where
  "f64_less NaN b = False"
| "f64_less a NaN = False"
| "f64_less (Finite a) (Finite b) = (a < b)"
| "f64_less a NegInf = False"
| "f64_less NegInf b = True"
| "f64_less PosInf b = False"
| "f64_less (Finite a) PosInf = True"

fun f64_le :: "float64 \<Rightarrow> float64 \<Rightarrow> bool" where
  "f64_le NaN b = False"
| "f64_le a NaN = False"
| "f64_le (Finite a) (Finite b) = (a \<le> b)"
| "f64_le NegInf b = True"
| "f64_le a NegInf = False"
| "f64_le a PosInf = True"
| "f64_le PosInf b = False"

definition lit_0_1 :: real where
  "lit_0_1 = 3602879701896397 / 36028797018963968"

definition lit_1_01 :: real where
  "lit_1_01 = 4548635623644201 / 4503599627370496"

definition resize :: "TrackedImage \<Rightarrow> float64 \<Rightarrow> TrackedImage outcome" where
  "resize i modifier =
     (if f64_le modifier (Finite lit_0_1) \<or>
         (f64_less (Finite 1) modifier \<and> f64_less modifier (Finite lit_1_01))
      then Return (Some InvalidModifier) i
      else Return None i)"


section \<open>Notions used to state the properties\<close>

text \<open>
  A picture as \<^verbatim>\<open>image.Decode\<close> delivers it from the registered PNG and JPEG
  decoders: its bounds start at the origin, so that \<^verbatim>\<open>Bounds().Max\<close> is its size.
\<close>

definition decoded :: "image \<Rightarrow> bool" where
  "decoded d \<longleftrightarrow>
     X (Min_pt (Bounds d)) = 0 \<and> Y (Min_pt (Bounds d)) = 0 \<and>
     0 \<le> X (Max_pt (Bounds d)) \<and> 0 \<le> Y (Max_pt (Bounds d))"

text \<open>
  The rows that the inner loop writes from index \<open>y\<close> on, for a column of height
  \<open>b\<close>: a row \<open>j\<close> that is not skipped, and its partner \<open>b - 1 - j\<close>.
\<close>

definition paired :: "int \<Rightarrow> int \<Rightarrow> int \<Rightarrow> bool" where
  "paired b y k \<longleftrightarrow> (\<exists>j. y \<le> j \<and> j < b \<and> j \<le> b div 2 \<and> (k = j \<or> k = b - 1 - j))"

text \<open>Two calls in a row: the second runs on the state of the first when that returned nil.\<close>

definition andThen :: "'s outcome \<Rightarrow> ('s \<Rightarrow> 's outcome) \<Rightarrow> 's outcome" where
  "andThen first second = (case first of Return None s \<Rightarrow> second s | other \<Rightarrow> other)"

fun error_of :: "'s outcome \<Rightarrow> error option" where
  "error_of (Return err s) = err"
| "error_of (Exit err s) = Some err"
| "error_of (Panic s) = None"

fun returned :: "'s outcome \<Rightarrow> bool" where
  "returned (Return err s) = True"
| "returned other = False"

text \<open>The sample at a point of the picture a tracked image holds.\<close>

definition sample :: "TrackedImage \<Rightarrow> int \<Rightarrow> int \<Rightarrow> color option" where
  "sample i x y = map_option (\<lambda>d. At d x y) (data i)"

text \<open>
  Pictures for concrete runs: the picture with the given columns (\<open>grid ! x ! y\<close>),
  bounds at the origin, and the given colour outside.
\<close>

definition grid_image :: "colorModel \<Rightarrow> color \<Rightarrow> color list list \<Rightarrow> image" where
  "grid_image m zero grid =
     \<lparr>ColorModel = m,
      Bounds = \<lparr>Min_pt = \<lparr>X = 0, Y = 0\<rparr>,
                Max_pt = \<lparr>X = int (length grid),
                          Y = (case grid of [] \<Rightarrow> 0 | col # _ \<Rightarrow> int (length col))\<rparr>\<rparr>,
      At = (\<lambda>x y. if 0 \<le> x \<and> x < int (length grid) \<and> 0 \<le> y \<and> y < int (length (grid ! nat x))
                   then grid ! nat x ! nat y else zero)\<rparr>"

definition tracked :: "string \<Rightarrow> string \<Rightarrow> image \<Rightarrow> TrackedImage" where
  "tracked p f d = \<lparr>filepath = p, format = f, data = Some d\<rparr>"

text \<open>A 1x1 PNG with one half-transparent red sample, and a 2x2 one.\<close>

definition translucent :: image where
  "translucent = grid_image NRGBAModel (NRGBA 0 0 0 0) [[NRGBA 100 0 0 128]]"

definition quad :: image where
  "quad = grid_image NRGBAModel (NRGBA 0 0 0 0)
            [[NRGBA 100 0 0 128, NRGBA 0 100 0 128], [NRGBA 0 0 100 128, NRGBA 9 9 9 128]]"

text \<open>A 1x2 picture whose samples are \<^verbatim>\<open>color.RGBA\<close> values, and a grey 1x1 picture.\<close>

definition strip :: image where
  "strip = grid_image RGBAModel (RGBA 0 0 0 0) [[RGBA 1 2 3 255, RGBA 4 5 6 255]]"

definition grey :: image where
  "grey = grid_image GrayModel (Gray 0) [[Gray 7]]"

text \<open>A picture of odd height, 1x3.\<close>

definition tall :: image where
  "tall = grid_image RGBAModel (RGBA 0 0 0 0) [[RGBA 1 1 1 255, RGBA 2 2 2 255, RGBA 3 3 3 255]]"


text \<open>
  Codecs and a file system for concrete runs: the decoder accepts one byte string, the
  handle of \<^verbatim>\<open>junk.png\<close> fails to close, and \<^verbatim>\<open>old.bmp\<close> holds three bytes.
\<close>

definition demo_codecs :: codecs where
  "demo_codecs =
     \<lparr>image_Decode = (\<lambda>b. if b = [137, 80, 78, 71] then Inr (strip, ''png'')
                           else Inl (External ''image: unknown format'')),
      png_Encode = (\<lambda>d. ([137, 80, 78, 71], None)),
      jpeg_Encode = (\<lambda>d. ([255, 216], None))\<rparr>"

definition demo_world :: world where
  "demo_world =
     \<lparr>files = [''a.png'' \<mapsto> [137, 80, 78, 71], ''junk.png'' \<mapsto> [0], ''old.bmp'' \<mapsto> [66, 77, 1]],
      refused = Map.empty,
      closeFails = [''junk.png'' \<mapsto> External ''input/output error'']\<rparr>"

text \<open>A tracked image whose format was set to a name \<^verbatim>\<open>save\<close> cannot encode.\<close>

definition bitmap :: TrackedImage where
  "bitmap = tracked ''old.bmp'' ''bmp'' strip"

section \<open>The loops of the vertical flip\<close>

lemma Bounds_Set_px: "Bounds (Set_px p x y c) = Bounds p"
  by (simp add: Set_px_def)

lemma ColorModel_Set_px: "ColorModel (Set_px p x y c) = ColorModel p"
  by (simp add: Set_px_def)

lemma At_Set_px:
  "At (Set_px p x y c) x' y' =
     (if x' = x \<and> y' = y \<and> point_In x y (Bounds p) then rgbaModel c else At p x' y')"
  by (simp add: Set_px_def)

lemma sdiv_two_nonneg: "0 \<le> (b::int) \<Longrightarrow> b sdiv 2 = b div 2"
  by (cases "b = 0") (simp_all add: signed_divide_int_def)

lemma paired_step:
  "paired b y k \<longleftrightarrow> (y < b \<and> y \<le> b div 2 \<and> (k = y \<or> k = b - 1 - y)) \<or> paired b (y + 1) k"
proof
  assume "paired b y k"
  then obtain j where j: "y \<le> j" "j < b" "j \<le> b div 2" "k = j \<or> k = b - 1 - j"
    unfolding paired_def by blast
  show "(y < b \<and> y \<le> b div 2 \<and> (k = y \<or> k = b - 1 - y)) \<or> paired b (y + 1) k"
  proof (cases "j = y")
    case True
    with j show ?thesis by simp
  next
    case False
    with j have "y + 1 \<le> j" by simp
    with j have "paired b (y + 1) k" unfolding paired_def by blast
    then show ?thesis ..
  qed
next
  assume "(y < b \<and> y \<le> b div 2 \<and> (k = y \<or> k = b - 1 - y)) \<or> paired b (y + 1) k"
  then show "paired b y k"
  proof
    assume "y < b \<and> y \<le> b div 2 \<and> (k = y \<or> k = b - 1 - y)"
    then show ?thesis unfolding paired_def by (intro exI[of _ y]) simp
  next
    assume "paired b (y + 1) k"
    then obtain j where "y + 1 \<le> j" "j < b" "j \<le> b div 2" "k = j \<or> k = b - 1 - j"
      unfolding paired_def by blast
    then show ?thesis unfolding paired_def by (intro exI[of _ j]) simp
  qed
qed

lemma paired_step_skip: "b div 2 < y \<Longrightarrow> paired b y k = paired b (y + 1) k"
  using paired_step [of b y k] by simp

lemma paired_empty: "b \<le> y \<Longrightarrow> \<not> paired b y k"
  unfolding paired_def by auto

lemma paired_all: "0 \<le> b \<Longrightarrow> paired b 0 k \<longleftrightarrow> 0 \<le> k \<and> k < b"
  unfolding paired_def
  apply (rule iffI)
   apply auto[1]
  apply (cases "k \<le> b div 2")
   apply (rule exI[of _ k]) apply simp
  apply (rule exI[of _ "b - 1 - k"])
  apply simp
  done

lemma swapColumn_spec:
  assumes "rest = drop (nat y) row" and "0 \<le> y" and "b = int (length row)"
  shows "\<exists>r. swapColumn b row x y rest rgba = Some r \<and> Bounds r = Bounds rgba \<and>
           ColorModel r = ColorModel rgba \<and>
           (\<forall>x' k. At r x' k =
              (if x' = x \<and> point_In x k (Bounds rgba) \<and> paired b y k
               then rgbaModel (row ! nat (b - 1 - k)) else At rgba x' k))"
  using assms
proof (induction rest arbitrary: y rgba)
  case Nil
  then have "b \<le> y" by simp
  then show ?case by (simp add: paired_empty)
next
  case (Cons pixel rest)
  from Cons.prems have ylt: "nat y < length row"
    by (metis drop_eq_Nil2 list.distinct(1) not_le)
  with Cons.prems have pixel: "pixel = row ! nat y" and rest: "rest = drop (nat (y + 1)) row"
    by (metis Cons_nth_drop_Suc list.inject, metis Cons_nth_drop_Suc list.inject Suc_nat_eq_nat_zadd1 add.commute)
  have b0: "0 \<le> b" using Cons.prems by simp
  have yb: "y < b" using ylt Cons.prems by simp
  show ?case
  proof (cases "y > b sdiv 2")
    case True
    then have skip: "b div 2 < y" using b0 by (simp add: sdiv_two_nonneg)
    from Cons.IH [OF rest _ Cons.prems(3), of rgba] Cons.prems(2) True
    show ?thesis by (simp add: paired_step_skip [OF skip])
  next
    case False
    then have half: "y \<le> b div 2" using b0 by (simp add: sdiv_two_nonneg)
    let ?inv = "b - y - 1"
    let ?rgba = "Set_px (Set_px rgba x y (row ! nat ?inv)) x ?inv pixel"
    have inv: "\<not> (?inv < 0 \<or> int (length row) \<le> ?inv)"
      using yb Cons.prems by simp
    from Cons.IH [OF rest _ Cons.prems(3), of ?rgba] Cons.prems(2)
    obtain r where r: "swapColumn b row x (y + 1) rest ?rgba = Some r"
      "Bounds r = Bounds rgba" "ColorModel r = ColorModel rgba"
      "\<And>x' k. At r x' k =
              (if x' = x \<and> point_In x k (Bounds rgba) \<and> paired b (y + 1) k
               then rgbaModel (row ! nat (b - 1 - k)) else At ?rgba x' k)"
      by (auto simp: Bounds_Set_px ColorModel_Set_px)
    have run: "swapColumn b row x y (pixel # rest) rgba = Some r"
      using False inv r(1) by (simp add: Let_def)
    have "At r x' k =
              (if x' = x \<and> point_In x k (Bounds rgba) \<and> paired b y k
               then rgbaModel (row ! nat (b - 1 - k)) else At rgba x' k)" for x' k
    proof -
      have eq: "b - 1 - (b - y - 1) = y" "b - 1 - y = b - y - 1" by simp_all
      show ?thesis
        unfolding r(4) paired_step [of b y k]
        using yb half pixel
        by (auto simp: At_Set_px Bounds_Set_px eq)
    qed
    with run r(2,3) show ?thesis by blast
  qed
qed


lemma swapColumns_spec:
  assumes "\<forall>row \<in> set rows. int (length row) = b"
  shows "\<exists>r. swapColumns b x rows rgba = Some r \<and> Bounds r = Bounds rgba \<and>
           ColorModel r = ColorModel rgba \<and>
           (\<forall>x' k. At r x' k =
              (if x \<le> x' \<and> x' < x + int (length rows) \<and> point_In x' k (Bounds rgba) \<and>
                  0 \<le> k \<and> k < b
               then rgbaModel (rows ! nat (x' - x) ! nat (b - 1 - k)) else At rgba x' k))"
  using assms
proof (induction rows arbitrary: x rgba)
  case Nil
  show ?case by auto
next
  case (Cons row rows)
  have len: "b = int (length row)" using Cons.prems by simp
  then have b0: "0 \<le> b" by simp
  from swapColumn_spec [of row 0 row b x rgba] len
  obtain r1 where r1: "swapColumn b row x 0 row rgba = Some r1"
    "Bounds r1 = Bounds rgba" "ColorModel r1 = ColorModel rgba"
    "\<And>x' k. At r1 x' k =
       (if x' = x \<and> point_In x k (Bounds rgba) \<and> paired b 0 k
        then rgbaModel (row ! nat (b - 1 - k)) else At rgba x' k)"
    by auto
  from Cons.IH [of "x + 1" r1] Cons.prems
  obtain r where r: "swapColumns b (x + 1) rows r1 = Some r"
    "Bounds r = Bounds r1" "ColorModel r = ColorModel r1"
    "\<And>x' k. At r x' k =
       (if x + 1 \<le> x' \<and> x' < x + 1 + int (length rows) \<and> point_In x' k (Bounds r1) \<and>
           0 \<le> k \<and> k < b
        then rgbaModel (rows ! nat (x' - (x + 1)) ! nat (b - 1 - k)) else At r1 x' k)"
    by auto
  have run: "swapColumns b x (row # rows) rgba = Some r"
    using r1(1) r(1) by simp
  have "At r x' k =
       (if x \<le> x' \<and> x' < x + int (length (row # rows)) \<and> point_In x' k (Bounds rgba) \<and>
           0 \<le> k \<and> k < b
        then rgbaModel ((row # rows) ! nat (x' - x) ! nat (b - 1 - k)) else At rgba x' k)"
    for x' k
  proof (cases "x' = x")
    case True
    then show ?thesis
      unfolding r(4) r1(4) by (simp add: paired_all [OF b0])
  next
    case False
    have "(row # rows) ! nat (x' - x) = rows ! nat (x' - (x + 1))" if "x + 1 \<le> x'"
    proof -
      from that have "nat (x' - x) = Suc (nat (x' - (x + 1)))" by simp
      then show ?thesis by simp
    qed
    with False show ?thesis
      unfolding r(4) r1(4) r1(2) by auto
  qed
  with run r(2,3) r1(2,3) show ?case by auto
qed

lemma getPixels_lengths:
  "data i = Some d \<Longrightarrow> \<forall>row \<in> set (getPixels i). int (length row) = int (nat (Y (Size (Bounds d))))"
  by (auto simp: getPixels_def)

lemma flipVertically_decoded:
  assumes d: "data i = Some d" and dec: "decoded d"
  shows "\<exists>r. flipVertically i = Return None (i\<lparr>data := Some r\<rparr>) \<and> Bounds r = Bounds d \<and>
           ColorModel r = RGBAModel \<and>
           (\<forall>x y. At r x y =
              (if point_In x y (Bounds d)
               then rgbaModel (At d x (Y (Max_pt (Bounds d)) - 1 - y)) else RGBA 0 0 0 0))"
proof -
  let ?h = "Y (Max_pt (Bounds d))" and ?w = "X (Max_pt (Bounds d))"
  from dec have sz: "X (Size (Bounds d)) = ?w" "Y (Size (Bounds d)) = ?h" "0 \<le> ?w" "0 \<le> ?h"
    by (simp_all add: decoded_def Size_def)
  let ?rgba = "\<lparr>ColorModel = RGBAModel, Bounds = Bounds d, At = (\<lambda>x y. RGBA 0 0 0 0)\<rparr>"
  have new: "NewRGBA (Bounds d) = Some ?rgba"
    using sz by (simp add: NewRGBA_def)
  have "\<forall>row \<in> set (getPixels i). int (length row) = ?h"
    using getPixels_lengths [OF d] sz by simp
  from swapColumns_spec [OF this, of 0 ?rgba]
  obtain r where r: "swapColumns ?h 0 (getPixels i) ?rgba = Some r"
    "Bounds r = Bounds d" "ColorModel r = RGBAModel"
    "\<And>x' k. At r x' k =
       (if 0 \<le> x' \<and> x' < 0 + int (length (getPixels i)) \<and> point_In x' k (Bounds d) \<and>
           0 \<le> k \<and> k < ?h
        then rgbaModel (getPixels i ! nat (x' - 0) ! nat (?h - 1 - k)) else RGBA 0 0 0 0)"
    by auto
  have run: "flipVertically i = Return None (i\<lparr>data := Some r\<rparr>)"
    using d new r(1) by (simp add: flipVertically_def)
  have "At r x y =
          (if point_In x y (Bounds d) then rgbaModel (At d x (?h - 1 - y)) else RGBA 0 0 0 0)"
    for x y
  proof (cases "point_In x y (Bounds d)")
    case False
    then show ?thesis unfolding r(4) by simp
  next
    case True
    with dec have rng: "0 \<le> x" "x < ?w" "0 \<le> y" "y < ?h"
      by (simp_all add: point_In_def decoded_def)
    have len: "int (length (getPixels i)) = ?w"
      using d sz by (simp add: getPixels_def)
    have "getPixels i ! nat x ! nat (?h - 1 - y) = At d x (?h - 1 - y)"
      using d sz rng by (simp add: getPixels_def)
    with True rng len show ?thesis unfolding r(4) by simp
  qed
  with run r(2,3) show ?thesis by blast
qed



lemma rgbaModel_idem: "rgbaModel (rgbaModel c) = rgbaModel c"
  by (cases c) (simp_all split: prod.splits)

lemma flipVertically_cases:
  "(data i = None \<and> flipVertically i = Return (Some NoImageLoaded) i) \<or>
   (data i \<noteq> None \<and> flipVertically i = Panic i) \<or>
   (data i \<noteq> None \<and> (\<exists>r. flipVertically i = Return None (i\<lparr>data := Some r\<rparr>)))"
  by (auto simp: flipVertically_def split: option.splits)

lemma mirror_after:
  "flipVertically i = Return None i1 \<Longrightarrow> mirror i = Return (Some NotImplemented) i1"
  "flipVertically i = Return (Some err) i1 \<Longrightarrow> mirror i = Return (Some err) i1"
  "flipVertically i = Panic i1 \<Longrightarrow> mirror i = Panic i1"
  by (simp_all add: mirror_def flipHorizontally_def)


section \<open>Flipping twice\<close>

text \<open>
  C1, as amended. For every tracked image holding a decoded picture, two calls of
  \<^verbatim>\<open>flipVertically\<close> in a row both return nil and leave a picture with the bounds of
  the original whose sample at every point of the bounds is the \<^verbatim>\<open>color.RGBA\<close>
  conversion of the original sample there; it is the original sample itself wherever
  that is a \<^verbatim>\<open>color.RGBA\<close> value. The skip test \<open>y > height / 2\<close>, which lets the
  two middle rows of an even height be written twice, does not disturb this.
\<close>
theorem flipVertically_twice:
  assumes "data i = Some d" and "decoded d"
  shows "\<exists>i2 d2. andThen (flipVertically i) flipVertically = Return None i2 \<and>
           data i2 = Some d2 \<and> Bounds d2 = Bounds d \<and>
           (\<forall>x y. point_In x y (Bounds d) \<longrightarrow>
              At d2 x y = rgbaModel (At d x y) \<and>
              (\<forall>r g b a. At d x y = RGBA r g b a \<longrightarrow> At d2 x y = At d x y))"
proof -
  let ?h = "Y (Max_pt (Bounds d))"
  from flipVertically_decoded [OF assms]
  obtain r1 where r1: "flipVertically i = Return None (i\<lparr>data := Some r1\<rparr>)"
    "Bounds r1 = Bounds d"
    "\<And>x y. At r1 x y =
       (if point_In x y (Bounds d) then rgbaModel (At d x (?h - 1 - y)) else RGBA 0 0 0 0)"
    by blast
  have dec1: "decoded r1" using assms(2) r1(2) by (simp add: decoded_def)
  have d1: "data (i\<lparr>data := Some r1\<rparr>) = Some r1" by simp
  from flipVertically_decoded [OF d1 dec1]
  obtain r2 where r2: "flipVertically (i\<lparr>data := Some r1\<rparr>) = Return None (i\<lparr>data := Some r2\<rparr>)"
    "Bounds r2 = Bounds d"
    "\<And>x y. At r2 x y =
       (if point_In x y (Bounds d) then rgbaModel (At r1 x (?h - 1 - y)) else RGBA 0 0 0 0)"
    by (auto simp: r1(2))
  have run: "andThen (flipVertically i) flipVertically = Return None (i\<lparr>data := Some r2\<rparr>)"
    using r1(1) r2(1) by (simp add: andThen_def)
  have px: "At r2 x y = rgbaModel (At d x y)" if "point_In x y (Bounds d)" for x y
  proof -
    from that assms(2) have "point_In x (?h - 1 - y) (Bounds d)"
      by (simp add: point_In_def decoded_def)
    with that show ?thesis
      unfolding r2(3) r1(3) by (simp add: rgbaModel_idem)
  qed
  have "At r2 x y = rgbaModel (At d x y) \<and>
        (\<forall>r g b a. At d x y = RGBA r g b a \<longrightarrow> At r2 x y = At d x y)"
    if "point_In x y (Bounds d)" for x y
    using px [OF that] by auto
  with run r2(2) show ?thesis by auto
qed

text \<open>The theorem at a 1x2 picture of \<^verbatim>\<open>color.RGBA\<close> samples.\<close>
theorem flipVertically_twice_witness:
  "data (tracked ''a.png'' ''png'' strip) = Some strip \<and> decoded strip \<and>
   (\<exists>i2 d2. andThen (flipVertically (tracked ''a.png'' ''png'' strip)) flipVertically
               = Return None i2 \<and>
           data i2 = Some d2 \<and> Bounds d2 = Bounds strip \<and>
           (\<forall>x y. point_In x y (Bounds strip) \<longrightarrow>
              At d2 x y = rgbaModel (At strip x y) \<and>
              (\<forall>r g b a. At strip x y = RGBA r g b a \<longrightarrow> At d2 x y = At strip x y)))"
proof -
  have h1: "data (tracked ''a.png'' ''png'' strip) = Some strip"
    by (simp add: tracked_def)
  have h2: "decoded strip"
    by (simp add: strip_def grid_image_def decoded_def)
  from flipVertically_twice [OF h1 h2] h1 h2 show ?thesis by blast
qed

text \<open>
  C1 as stated fails at a 1x1 picture whose sample is the half-transparent
  \<^verbatim>\<open>color.NRGBA{100, 0, 0, 128}\<close>: after the two flips the sample at \<open>(0, 0)\<close> is
  \<^verbatim>\<open>color.RGBA{50, 0, 0, 128}\<close>, another value of another type, and the channels the two
  report through \<^verbatim>\<open>RGBA()\<close> differ too.
\<close>
theorem flipVertically_twice_counterexample:
  "decoded translucent \<and> point_In 0 0 (Bounds translucent) \<and>
   error_of (andThen (flipVertically (tracked ''a.png'' ''png'' translucent)) flipVertically) = None \<and>
   sample (tracked ''a.png'' ''png'' translucent) 0 0 = Some (NRGBA 100 0 0 128) \<and>
   sample (state_of (andThen (flipVertically (tracked ''a.png'' ''png'' translucent))
                      flipVertically)) 0 0 = Some (RGBA 50 0 0 128) \<and>
   channels (NRGBA 100 0 0 128) = (12900, 0, 0, 32896) \<and>
   channels (RGBA 50 0 0 128) = (12850, 0, 0, 32896)"
  by (simp add: tracked_def translucent_def grid_image_def decoded_def flipVertically_def
      NewRGBA_def Size_def getPixels_def andThen_def sample_def Set_px_def point_In_def
      signed_divide_int_def premul_def widen_def high_byte_def)

section \<open>The 2x2 scenario\<close>

text \<open>
  C2, as amended. For every tracked image holding a decoded picture whose grid
  (\<^verbatim>\<open>getPixels\<close>, one list per column) is \<open>[[A, B], [C, D]]\<close>, \<^verbatim>\<open>flipVertically\<close>
  returns nil and the grid of the new picture is the one with the two rows of each column
  swapped and every sample converted to \<^verbatim>\<open>color.RGBA\<close>.
\<close>
theorem flipVertically_2x2:
  assumes "data i = Some d" and "decoded d" and "getPixels i = [[A, B], [C, D]]"
  shows "\<exists>i'. flipVertically i = Return None i' \<and>
           getPixels i' = [[rgbaModel B, rgbaModel A], [rgbaModel D, rgbaModel C]]"
proof -
  let ?h = "Y (Max_pt (Bounds d))" and ?w = "X (Max_pt (Bounds d))"
  from assms(2) have sz: "X (Size (Bounds d)) = ?w" "Y (Size (Bounds d)) = ?h" "0 \<le> ?w" "0 \<le> ?h"
    by (simp_all add: decoded_def Size_def)
  have g: "getPixels i = map (\<lambda>x. map (\<lambda>y. At d (int x) (int y)) [0 ..< nat ?h]) [0 ..< nat ?w]"
    using assms(1) sz by (simp add: getPixels_def)
  have "length (getPixels i) = 2" using assms(3) by simp
  with g have w: "?w = 2" using sz by simp
  have "length (getPixels i ! 0) = 2" using assms(3) by simp
  with g w have h: "?h = 2" using sz by simp
  have up: "[0 ..< nat (2::int)] = [0, 1]" by (simp add: upt_rec)
  from assms(3) g w h up have px: "At d 0 0 = A" "At d 0 1 = B" "At d 1 0 = C" "At d 1 1 = D"
    by simp_all
  from flipVertically_decoded [OF assms(1,2)]
  obtain r where r: "flipVertically i = Return None (i\<lparr>data := Some r\<rparr>)"
    "Bounds r = Bounds d"
    "\<And>x y. At r x y =
       (if point_In x y (Bounds d) then rgbaModel (At d x (?h - 1 - y)) else RGBA 0 0 0 0)"
    by blast
  have pin: "point_In 0 0 (Bounds d)" "point_In 0 1 (Bounds d)"
    "point_In 1 0 (Bounds d)" "point_In 1 1 (Bounds d)"
    using assms(2) w h by (simp_all add: point_In_def decoded_def)
  have "getPixels (i\<lparr>data := Some r\<rparr>) =
          [[rgbaModel B, rgbaModel A], [rgbaModel D, rgbaModel C]]"
    using sz w h up pin px by (simp add: getPixels_def r(2) r(3))
  with r(1) show ?thesis by blast
qed

text \<open>The theorem at a 2x2 picture of half-transparent samples.\<close>
theorem flipVertically_2x2_witness:
  "data (tracked ''q.png'' ''png'' quad) = Some quad \<and> decoded quad \<and>
   getPixels (tracked ''q.png'' ''png'' quad) =
     [[NRGBA 100 0 0 128, NRGBA 0 100 0 128], [NRGBA 0 0 100 128, NRGBA 9 9 9 128]] \<and>
   (\<exists>i'. flipVertically (tracked ''q.png'' ''png'' quad) = Return None i' \<and>
      getPixels i' = [[RGBA 0 50 0 128, RGBA 50 0 0 128], [RGBA 4 4 4 128, RGBA 0 0 50 128]])"
proof -
  have h1: "data (tracked ''q.png'' ''png'' quad) = Some quad"
    by (simp add: tracked_def)
  have h2: "decoded quad"
    by (simp add: quad_def grid_image_def decoded_def)
  have h3: "getPixels (tracked ''q.png'' ''png'' quad) =
     [[NRGBA 100 0 0 128, NRGBA 0 100 0 128], [NRGBA 0 0 100 128, NRGBA 9 9 9 128]]"
    by (simp add: tracked_def quad_def grid_image_def getPixels_def Size_def upt_rec)
  from flipVertically_2x2 [OF h1 h2 h3] h1 h2 h3 show ?thesis
    by (simp add: premul_def widen_def high_byte_def)
qed

text \<open>
  C2 as stated fails at that picture: with \<open>A, B, C, D\<close> its four \<^verbatim>\<open>color.NRGBA\<close>
  samples, the grid after the flip holds four \<^verbatim>\<open>color.RGBA\<close> values, not
  \<open>[[B, A], [D, C]]\<close>.
\<close>
theorem flipVertically_2x2_counterexample:
  "decoded quad \<and>
   getPixels (tracked ''q.png'' ''png'' quad) =
     [[NRGBA 100 0 0 128, NRGBA 0 100 0 128], [NRGBA 0 0 100 128, NRGBA 9 9 9 128]] \<and>
   error_of (flipVertically (tracked ''q.png'' ''png'' quad)) = None \<and>
   getPixels (state_of (flipVertically (tracked ''q.png'' ''png'' quad))) =
     [[RGBA 0 50 0 128, RGBA 50 0 0 128], [RGBA 4 4 4 128, RGBA 0 0 50 128]]"
  by (simp add: tracked_def quad_def grid_image_def decoded_def flipVertically_def
      NewRGBA_def Size_def getPixels_def Set_px_def point_In_def upt_rec
      signed_divide_int_def premul_def widen_def high_byte_def)


section \<open>Bounds and colour model of the result\<close>

text \<open>
  C3, as amended. For every tracked image holding a decoded picture,
  \<^verbatim>\<open>flipVertically\<close> returns nil and the new picture has the bounds, hence the width
  and the height, of the old one, and its colour model is \<^verbatim>\<open>color.RGBAModel\<close>
  whatever the colour model of the old one was; \<^verbatim>\<open>mirror\<close> does not succeed: it
  returns the error of \<^verbatim>\<open>flipHorizontally\<close>, on the state \<^verbatim>\<open>flipVertically\<close> left.
\<close>
theorem flip_keeps_bounds:
  assumes "data i = Some d" and "decoded d"
  shows "\<exists>d'. flipVertically i = Return None (i\<lparr>data := Some d'\<rparr>) \<and>
           mirror i = Return (Some NotImplemented) (i\<lparr>data := Some d'\<rparr>) \<and>
           Bounds d' = Bounds d \<and> Size (Bounds d') = Size (Bounds d) \<and>
           ColorModel d' = RGBAModel"
proof -
  from flipVertically_decoded [OF assms]
  obtain r where r: "flipVertically i = Return None (i\<lparr>data := Some r\<rparr>)"
    "Bounds r = Bounds d" "ColorModel r = RGBAModel"
    by blast
  from mirror_after(1) [OF r(1)] r show ?thesis by auto
qed

text \<open>The theorem at a grey 1x1 picture.\<close>
theorem flip_keeps_bounds_witness:
  "data (tracked ''g.png'' ''png'' grey) = Some grey \<and> decoded grey \<and>
   (\<exists>d'. flipVertically (tracked ''g.png'' ''png'' grey)
            = Return None ((tracked ''g.png'' ''png'' grey)\<lparr>data := Some d'\<rparr>) \<and>
      Bounds d' = Bounds grey \<and> ColorModel d' = RGBAModel)"
proof -
  have h1: "data (tracked ''g.png'' ''png'' grey) = Some grey"
    by (simp add: tracked_def)
  have h2: "decoded grey"
    by (simp add: grey_def grid_image_def decoded_def)
  from flip_keeps_bounds [OF h1 h2] h1 h2 show ?thesis by blast
qed

text \<open>
  C3 as stated fails at the grey picture: its colour model is \<^verbatim>\<open>color.GrayModel\<close>,
  that of the flipped picture is \<^verbatim>\<open>color.RGBAModel\<close>.
\<close>
theorem flip_color_model_counterexample:
  "decoded grey \<and> ColorModel grey = GrayModel \<and>
   error_of (flipVertically (tracked ''g.png'' ''png'' grey)) = None \<and>
   map_option ColorModel (data (state_of (flipVertically (tracked ''g.png'' ''png'' grey))))
     = Some RGBAModel \<and>
   sample (state_of (flipVertically (tracked ''g.png'' ''png'' grey))) 0 0 = Some (RGBA 7 7 7 255)"
  by (simp add: tracked_def grey_def grid_image_def decoded_def flipVertically_def
      NewRGBA_def Size_def getPixels_def Set_px_def point_In_def sample_def
      signed_divide_int_def widen_def high_byte_def)

section \<open>The centre row of an odd height\<close>

text \<open>
  C4, as amended. For every tracked image holding a decoded picture of odd height
  \<open>H\<close>, \<^verbatim>\<open>flipVertically\<close> returns nil and every sample of row \<open>(H - 1) / 2\<close> of the
  new picture is the \<^verbatim>\<open>color.RGBA\<close> conversion of the sample of the old picture at the
  same point; it is that sample itself wherever it is a \<^verbatim>\<open>color.RGBA\<close> value.
\<close>
theorem center_row:
  assumes "data i = Some d" and "decoded d" and "odd (Y (Max_pt (Bounds d)))"
  shows "\<exists>d'. flipVertically i = Return None (i\<lparr>data := Some d'\<rparr>) \<and>
           (\<forall>x. 0 \<le> x \<and> x < X (Max_pt (Bounds d)) \<longrightarrow>
              At d' x ((Y (Max_pt (Bounds d)) - 1) sdiv 2)
                = rgbaModel (At d x ((Y (Max_pt (Bounds d)) - 1) sdiv 2)) \<and>
              (\<forall>r g b a. At d x ((Y (Max_pt (Bounds d)) - 1) sdiv 2) = RGBA r g b a \<longrightarrow>
                 At d' x ((Y (Max_pt (Bounds d)) - 1) sdiv 2)
                   = At d x ((Y (Max_pt (Bounds d)) - 1) sdiv 2)))"
proof -
  let ?h = "Y (Max_pt (Bounds d))"
  from assms(2,3) have h1: "1 \<le> ?h"
    by (cases "?h = 0") (simp_all add: decoded_def)
  then have c: "(?h - 1) sdiv 2 = (?h - 1) div 2"
    by (simp add: sdiv_two_nonneg)
  from assms(3) have mid: "?h - 1 - (?h - 1) div 2 = (?h - 1) div 2"
    by presburger
  from flipVertically_decoded [OF assms(1,2)]
  obtain r where r: "flipVertically i = Return None (i\<lparr>data := Some r\<rparr>)"
    "\<And>x y. At r x y =
       (if point_In x y (Bounds d) then rgbaModel (At d x (?h - 1 - y)) else RGBA 0 0 0 0)"
    by blast
  have "At r x ((?h - 1) div 2) = rgbaModel (At d x ((?h - 1) div 2))"
    if "0 \<le> x \<and> x < X (Max_pt (Bounds d))" for x
  proof -
    from that assms(2) h1 have "point_In x ((?h - 1) div 2) (Bounds d)"
      by (simp add: point_In_def decoded_def)
    then show ?thesis unfolding r(2) by (simp add: mid)
  qed
  then have "At r x ((?h - 1) sdiv 2) = rgbaModel (At d x ((?h - 1) sdiv 2)) \<and>
              (\<forall>ra g b a. At d x ((?h - 1) sdiv 2) = RGBA ra g b a \<longrightarrow>
                 At r x ((?h - 1) sdiv 2) = At d x ((?h - 1) sdiv 2))"
    if "0 \<le> x \<and> x < X (Max_pt (Bounds d))" for x
    using that unfolding c by auto
  with r(1) show ?thesis by blast
qed

text \<open>The theorem at a 1x3 picture of \<^verbatim>\<open>color.RGBA\<close> samples: the middle sample stays.\<close>
theorem center_row_witness:
  "data (tracked ''t.png'' ''png'' tall) = Some tall \<and> decoded tall \<and>
   odd (Y (Max_pt (Bounds tall))) \<and>
   (\<exists>d'. flipVertically (tracked ''t.png'' ''png'' tall)
            = Return None ((tracked ''t.png'' ''png'' tall)\<lparr>data := Some d'\<rparr>) \<and>
          At d' 0 1 = RGBA 2 2 2 255)"
proof -
  have h1: "data (tracked ''t.png'' ''png'' tall) = Some tall"
    by (simp add: tracked_def)
  have h2: "decoded tall"
    by (simp add: tall_def grid_image_def decoded_def)
  have h3: "odd (Y (Max_pt (Bounds tall)))"
    by (simp add: tall_def grid_image_def)
  have v: "Y (Max_pt (Bounds tall)) = 3" "X (Max_pt (Bounds tall)) = 1"
    "At tall 0 1 = RGBA 2 2 2 255"
    by (simp_all add: tall_def grid_image_def)
  from center_row [OF h1 h2 h3] h1 h2 h3 show ?thesis
    by (auto simp: v signed_divide_int_def)
qed

text \<open>
  C4 as stated fails at the 1x1 half-transparent picture: height 1 is odd, the centre
  row is row 0, and its sample changes from \<^verbatim>\<open>color.NRGBA{100, 0, 0, 128}\<close> to
  \<^verbatim>\<open>color.RGBA{50, 0, 0, 128}\<close>.
\<close>
theorem center_row_counterexample:
  "decoded translucent \<and> odd (Y (Max_pt (Bounds translucent))) \<and>
   (Y (Max_pt (Bounds translucent)) - 1) sdiv 2 = 0 \<and>
   0 < X (Max_pt (Bounds translucent)) \<and>
   error_of (flipVertically (tracked ''a.png'' ''png'' translucent)) = None \<and>
   sample (tracked ''a.png'' ''png'' translucent) 0 0 = Some (NRGBA 100 0 0 128) \<and>
   sample (state_of (flipVertically (tracked ''a.png'' ''png'' translucent))) 0 0
     = Some (RGBA 50 0 0 128)"
  by (simp add: tracked_def translucent_def grid_image_def decoded_def flipVertically_def
      NewRGBA_def Size_def getPixels_def sample_def Set_px_def point_In_def
      signed_divide_int_def premul_def widen_def high_byte_def)

section \<open>Flips without a picture\<close>

text \<open>
  C5, as amended. On a tracked image without a picture (\<^verbatim>\<open>data\<close> is nil),
  \<^verbatim>\<open>flipVertically\<close> and \<^verbatim>\<open>mirror\<close> return the NoImageLoaded error, and
  \<^verbatim>\<open>flipHorizontally\<close> returns the NotImplemented error; the state is unchanged.
\<close>
theorem flips_without_image:
  assumes "data i = None"
  shows "flipVertically i = Return (Some NoImageLoaded) i \<and>
         mirror i = Return (Some NoImageLoaded) i \<and>
         flipHorizontally i = Return (Some NotImplemented) i"
proof -
  have v: "flipVertically i = Return (Some NoImageLoaded) i"
    using assms by (simp add: flipVertically_def)
  from v mirror_after(2) [OF v] show ?thesis
    by (simp add: flipHorizontally_def)
qed

text \<open>The theorem at the zero value of \<^verbatim>\<open>TrackedImage\<close>.\<close>
theorem flips_without_image_witness:
  "data fresh = None \<and> flipVertically fresh = Return (Some NoImageLoaded) fresh \<and>
   mirror fresh = Return (Some NoImageLoaded) fresh \<and>
   flipHorizontally fresh = Return (Some NotImplemented) fresh"
proof -
  have h: "data fresh = None" by (simp add: fresh_def)
  from flips_without_image [OF h] h show ?thesis by simp
qed

text \<open>
  C5 as stated fails for \<^verbatim>\<open>flipHorizontally\<close>: on the zero value it returns
  NotImplemented, not NoImageLoaded.
\<close>
theorem flipHorizontally_fresh_counterexample:
  "data fresh = None \<and> error_of (flipHorizontally fresh) = Some NotImplemented \<and>
   error_of (flipHorizontally fresh) \<noteq> Some NoImageLoaded"
  by (simp add: fresh_def flipHorizontally_def)

section \<open>What the flips do to the state\<close>

text \<open>
  C6, as amended. For every tracked image: when \<^verbatim>\<open>flipVertically\<close> returns nil it
  has replaced \<^verbatim>\<open>data\<close> and nothing else, and when it returns an error the state is
  as before the call; \<^verbatim>\<open>flipHorizontally\<close> returns NotImplemented with the state as
  before the call; \<^verbatim>\<open>mirror\<close> stops at its first failing stage and returns that
  stage's error unchanged, with the state as before the call when the stage is
  \<^verbatim>\<open>flipVertically\<close>, and with the state \<^verbatim>\<open>flipVertically\<close> left (the flipped
  picture in \<^verbatim>\<open>data\<close>) when the stage is \<^verbatim>\<open>flipHorizontally\<close>.
\<close>
theorem flips_state_effect:
  "(\<forall>i1. flipVertically i = Return None i1 \<longrightarrow>
      (\<exists>d'. i1 = i\<lparr>data := Some d'\<rparr>) \<and> mirror i = Return (Some NotImplemented) i1) \<and>
   (\<forall>err i1. flipVertically i = Return (Some err) i1 \<longrightarrow>
      i1 = i \<and> mirror i = Return (Some err) i) \<and>
   flipHorizontally i = Return (Some NotImplemented) i"
proof -
  have a: "\<exists>d'. i1 = i\<lparr>data := Some d'\<rparr>" if "flipVertically i = Return None i1" for i1
    using flipVertically_cases [of i] that by auto
  have b: "i1 = i" if "flipVertically i = Return (Some err) i1" for err i1
    using flipVertically_cases [of i] that by auto
  show ?thesis
    using a b mirror_after(1,2) [of i] by (simp add: flipHorizontally_def)
qed

text \<open>The theorem at the zero value and at a tracked 1x2 picture.\<close>
theorem flips_state_effect_witness:
  "mirror fresh = Return (Some NoImageLoaded) fresh \<and>
   (\<exists>d'. flipVertically (tracked ''s.png'' ''png'' strip)
            = Return None ((tracked ''s.png'' ''png'' strip)\<lparr>data := Some d'\<rparr>) \<and>
          mirror (tracked ''s.png'' ''png'' strip)
            = Return (Some NotImplemented) ((tracked ''s.png'' ''png'' strip)\<lparr>data := Some d'\<rparr>))"
proof -
  have f: "flipVertically fresh = Return (Some NoImageLoaded) fresh"
    by (simp add: fresh_def flipVertically_def)
  have h1: "data (tracked ''s.png'' ''png'' strip) = Some strip"
    by (simp add: tracked_def)
  have h2: "decoded strip"
    by (simp add: strip_def grid_image_def decoded_def)
  from flipVertically_decoded [OF h1 h2]
  obtain r where r: "flipVertically (tracked ''s.png'' ''png'' strip)
      = Return None ((tracked ''s.png'' ''png'' strip)\<lparr>data := Some r\<rparr>)"
    by blast
  from flips_state_effect [of fresh] f have "mirror fresh = Return (Some NoImageLoaded) fresh"
    by blast
  moreover from flips_state_effect [of "tracked ''s.png'' ''png'' strip"] r
  have "mirror (tracked ''s.png'' ''png'' strip)
            = Return (Some NotImplemented) ((tracked ''s.png'' ''png'' strip)\<lparr>data := Some r\<rparr>)"
    by blast
  ultimately show ?thesis using r by blast
qed

text \<open>
  C6 as stated fails for \<^verbatim>\<open>mirror\<close> on a tracked 1x2 picture: the call returns the
  NotImplemented error, and the sample at \<open>(0, 0)\<close> of \<^verbatim>\<open>data\<close> is no longer the one
  before the call.
\<close>
theorem mirror_state_counterexample:
  "decoded strip \<and>
   error_of (mirror (tracked ''s.png'' ''png'' strip)) = Some NotImplemented \<and>
   returned (mirror (tracked ''s.png'' ''png'' strip)) \<and>
   sample (tracked ''s.png'' ''png'' strip) 0 0 = Some (RGBA 1 2 3 255) \<and>
   sample (state_of (mirror (tracked ''s.png'' ''png'' strip))) 0 0 = Some (RGBA 4 5 6 255)"
  by (simp add: tracked_def strip_def grid_image_def decoded_def mirror_def flipHorizontally_def
      flipVertically_def NewRGBA_def Size_def getPixels_def sample_def Set_px_def point_In_def
      signed_divide_int_def upt_rec)

section \<open>Loading\<close>

text \<open>
  C7, as amended. For every tracked image, file system, codec and path: when
  \<^verbatim>\<open>os.Open\<close> fails, \<^verbatim>\<open>load\<close> returns its error and leaves the state as it was;
  when the file opens, decoding fails and the handle closes, it returns the decoder's
  error and leaves the state as it was; when the file opens, decoding succeeds and the
  handle closes, it returns nil with \<^verbatim>\<open>filepath\<close>, \<^verbatim>\<open>format\<close> and \<^verbatim>\<open>data\<close> set
  together; when the handle of the opened file fails to close, \<^verbatim>\<open>log.Fatal\<close> stops
  the process and \<^verbatim>\<open>load\<close> does not return. It returns nil only when opening and
  decoding succeeded, and a call that returns an error has left the state as it was.
\<close>
theorem load_effect:
  "(\<forall>err. os_Open w path = Inl err \<longrightarrow> load cd w i path = Return (Some err) i) \<and>
   (\<forall>file err. os_Open w path = Inr file \<and> image_Decode cd file = Inl err \<and>
       closeFails w path = None \<longrightarrow> load cd w i path = Return (Some err) i) \<and>
   (\<forall>file img fmt. os_Open w path = Inr file \<and> image_Decode cd file = Inr (img, fmt) \<and>
       closeFails w path = None \<longrightarrow>
       load cd w i path = Return None (i\<lparr>filepath := path, format := fmt, data := Some img\<rparr>)) \<and>
   (\<forall>file err. os_Open w path = Inr file \<and> closeFails w path = Some err \<longrightarrow>
       (\<exists>s. load cd w i path = Exit err s)) \<and>
   (\<forall>i'. load cd w i path = Return None i' \<longrightarrow>
       (\<exists>file img fmt. os_Open w path = Inr file \<and> image_Decode cd file = Inr (img, fmt) \<and>
          i' = i\<lparr>filepath := path, format := fmt, data := Some img\<rparr>)) \<and>
   (\<forall>err i'. load cd w i path = Return (Some err) i' \<longrightarrow> i' = i)"
  by (auto simp: load_def deferClose_def split: sum.splits option.splits prod.splits)

text \<open>The theorem at a file that decodes and at a path without a file.\<close>
theorem load_effect_witness:
  "load demo_codecs demo_world fresh ''a.png''
     = Return None \<lparr>filepath = ''a.png'', format = ''png'', data = Some strip\<rparr> \<and>
   load demo_codecs demo_world fresh ''none.png''
     = Return (Some (External ''no such file or directory'')) fresh"
proof -
  have o: "os_Open demo_world ''a.png'' = Inr [137, 80, 78, 71]"
    "os_Open demo_world ''none.png'' = Inl (External ''no such file or directory'')"
    by (simp_all add: os_Open_def demo_world_def)
  have d: "image_Decode demo_codecs [137, 80, 78, 71] = Inr (strip, ''png'')"
    by (simp add: demo_codecs_def)
  have c: "closeFails demo_world ''a.png'' = None"
    by (simp add: demo_world_def)
  from load_effect [of demo_world "''a.png''" demo_codecs fresh] o d c
  have "load demo_codecs demo_world fresh ''a.png''
     = Return None (fresh\<lparr>filepath := ''a.png'', format := ''png'', data := Some strip\<rparr>)"
    by blast
  moreover from load_effect [of demo_world "''none.png''" demo_codecs fresh] o
  have "load demo_codecs demo_world fresh ''none.png''
     = Return (Some (External ''no such file or directory'')) fresh"
    by blast
  ultimately show ?thesis by (simp add: fresh_def)
qed

text \<open>
  C7 as stated fails where decoding fails and the handle then fails to close: the
  deferred function calls \<^verbatim>\<open>log.Fatal\<close>, and \<^verbatim>\<open>load\<close> does not return the
  decoder's error.
\<close>
theorem load_close_counterexample:
  "os_Open demo_world ''junk.png'' = Inr [0] \<and>
   image_Decode demo_codecs [0] = Inl (External ''image: unknown format'') \<and>
   load demo_codecs demo_world fresh ''junk.png'' = Exit (External ''input/output error'') fresh \<and>
   \<not> returned (load demo_codecs demo_world fresh ''junk.png'')"
  by (simp add: load_def os_Open_def deferClose_def demo_world_def demo_codecs_def)

section \<open>Saving in a format without encoder\<close>

text \<open>
  C8, as amended. \<^verbatim>\<open>save\<close> with a nil path is \<^verbatim>\<open>save\<close> with
  \<^verbatim>\<open>filepath\<close>. For a tracked image whose format is neither \<^verbatim>\<open>png\<close> nor
  \<^verbatim>\<open>jpeg\<close>, \<^verbatim>\<open>save\<close> first creates or truncates the target file: when that is
  refused it returns the error of \<^verbatim>\<open>os.Create\<close> and the file system is untouched;
  otherwise the target file is left empty and the call returns the UnsupportedFormat
  error, or, when the handle fails to close, \<^verbatim>\<open>log.Fatal\<close> stops the process. The
  tracked image is unchanged.
\<close>
theorem save_unsupported:
  "save cd w i None = save cd w i (Some (filepath i)) \<and>
   (format i \<noteq> ''png'' \<and> format i \<noteq> ''jpeg'' \<and>
    p = (case path of None \<Rightarrow> filepath i | Some q \<Rightarrow> q) \<longrightarrow>
      (\<forall>err. refused w p = Some err \<longrightarrow> save cd w i path = Return (Some err) (i, w)) \<and>
      (refused w p = None \<and> closeFails w p = None \<longrightarrow>
         save cd w i path
           = Return (Some (UnsupportedFormat (format i))) (i, w\<lparr>files := (files w)(p \<mapsto> [])\<rparr>)) \<and>
      (\<forall>err. refused w p = None \<and> closeFails w p = Some err \<longrightarrow>
         save cd w i path = Exit err (i, w\<lparr>files := (files w)(p \<mapsto> [])\<rparr>)))"
proof -
  have nil_path: "save cd w i None = save cd w i (Some (filepath i))"
    by (simp add: save_def)
  have unsupported:
    "(\<forall>err. refused w p = Some err \<longrightarrow> save cd w i path = Return (Some err) (i, w)) \<and>
     (refused w p = None \<and> closeFails w p = None \<longrightarrow>
        save cd w i path
          = Return (Some (UnsupportedFormat (format i))) (i, w\<lparr>files := (files w)(p \<mapsto> [])\<rparr>)) \<and>
     (\<forall>err. refused w p = None \<and> closeFails w p = Some err \<longrightarrow>
        save cd w i path = Exit err (i, w\<lparr>files := (files w)(p \<mapsto> [])\<rparr>))"
    if "format i \<noteq> ''png''" and "format i \<noteq> ''jpeg''"
      and "p = (case path of None \<Rightarrow> filepath i | Some q \<Rightarrow> q)"
    using that
    by (auto simp: save_def os_Create_def deferClose_def Let_def split: option.splits)
  from nil_path unsupported show ?thesis by blast
qed

text \<open>
  The theorem at format \<^verbatim>\<open>bmp\<close> and a path that does not exist yet, and its first
  part at a tracked \<^verbatim>\<open>png\<close> picture.
\<close>
theorem save_unsupported_witness:
  "format bitmap \<noteq> ''png'' \<and> format bitmap \<noteq> ''jpeg'' \<and>
   save demo_codecs demo_world bitmap (Some ''new.bmp'')
     = Return (Some (UnsupportedFormat ''bmp''))
         (bitmap, demo_world\<lparr>files := (files demo_world)(''new.bmp'' \<mapsto> [])\<rparr>) \<and>
   save demo_codecs demo_world (tracked ''a.png'' ''png'' strip) None
     = save demo_codecs demo_world (tracked ''a.png'' ''png'' strip) (Some ''a.png'')"
proof -
  have f: "format bitmap \<noteq> ''png''" "format bitmap \<noteq> ''jpeg''" "format bitmap = ''bmp''"
    by (simp_all add: bitmap_def tracked_def)
  have p: "''new.bmp'' = (case Some ''new.bmp'' of None \<Rightarrow> filepath bitmap | Some q \<Rightarrow> q)"
    by simp
  have e: "refused demo_world ''new.bmp'' = None" "closeFails demo_world ''new.bmp'' = None"
    by (simp_all add: demo_world_def)
  have n: "filepath (tracked ''a.png'' ''png'' strip) = ''a.png''"
    by (simp add: tracked_def)
  from save_unsupported [of demo_codecs demo_world bitmap "''new.bmp''" "Some ''new.bmp''"] f p e
  have "save demo_codecs demo_world bitmap (Some ''new.bmp'')
     = Return (Some (UnsupportedFormat ''bmp''))
         (bitmap, demo_world\<lparr>files := (files demo_world)(''new.bmp'' \<mapsto> [])\<rparr>)"
    by simp
  moreover from save_unsupported [of demo_codecs demo_world "tracked ''a.png'' ''png'' strip"] n
  have "save demo_codecs demo_world (tracked ''a.png'' ''png'' strip) None
     = save demo_codecs demo_world (tracked ''a.png'' ''png'' strip) (Some ''a.png'')"
    by simp
  ultimately show ?thesis using f by blast
qed

text \<open>
  C8 as stated fails at format \<^verbatim>\<open>bmp\<close> and a nil path: the call returns the
  UnsupportedFormat error, and the file at \<^verbatim>\<open>filepath\<close>, three bytes long before the
  call, is empty after it.
\<close>
theorem save_truncates_counterexample:
  "format bitmap = ''bmp'' \<and> filepath bitmap = ''old.bmp'' \<and>
   files demo_world ''old.bmp'' = Some [66, 77, 1] \<and>
   error_of (save demo_codecs demo_world bitmap None) = Some (UnsupportedFormat ''bmp'') \<and>
   files (snd (state_of (save demo_codecs demo_world bitmap None))) ''old.bmp'' = Some []"
  by (simp add: save_def os_Create_def deferClose_def bitmap_def tracked_def demo_world_def Let_def)

section \<open>The check of the resize modifier\<close>

text \<open>
  C9. For every tracked image and every \<^verbatim>\<open>float64\<close> modifier, \<^verbatim>\<open>resize\<close> returns
  the InvalidModifier error exactly when the modifier is at most \<^verbatim>\<open>0.1\<close> or lies
  strictly between \<^verbatim>\<open>1.00\<close> and \<^verbatim>\<open>1.01\<close> (the literals as \<^verbatim>\<open>float64\<close> values);
  for every other modifier it returns nil; the state is unchanged either way.
\<close>
theorem resize_validation:
  "(resize i m = Return (Some InvalidModifier) i \<longleftrightarrow>
      f64_le m (Finite lit_0_1) \<or> (f64_less (Finite 1) m \<and> f64_less m (Finite lit_1_01))) \<and>
   (resize i m \<noteq> Return (Some InvalidModifier) i \<longrightarrow> resize i m = Return None i) \<and>
   (\<forall>r. m = Finite r \<longrightarrow>
      (resize i m = Return (Some InvalidModifier) i \<longleftrightarrow> r \<le> lit_0_1 \<or> (1 < r \<and> r < lit_1_01)))"
  by (auto simp: resize_def)

text \<open>The theorem at the \<^verbatim>\<open>float64\<close> values of 0.05, 1.005, 0.5 and 2.0.\<close>
theorem resize_validation_witness:
  "resize fresh (Finite (3602879701896397 / 72057594037927936)) = Return (Some InvalidModifier) fresh \<and>
   resize fresh (Finite (1131529406376837 / 1125899906842624)) = Return (Some InvalidModifier) fresh \<and>
   resize fresh (Finite (1 / 2)) = Return None fresh \<and>
   resize fresh (Finite 2) = Return None fresh"
proof -
  have a: "f64_le (Finite (3602879701896397 / 72057594037927936)) (Finite lit_0_1)"
    by (simp add: lit_0_1_def)
  have b: "f64_less (Finite 1) (Finite (1131529406376837 / 1125899906842624)) \<and>
           f64_less (Finite (1131529406376837 / 1125899906842624)) (Finite lit_1_01)"
    by (simp add: lit_1_01_def)
  have c: "\<not> (f64_le (Finite (1 / 2)) (Finite lit_0_1) \<or>
              (f64_less (Finite 1) (Finite (1 / 2)) \<and> f64_less (Finite (1 / 2)) (Finite lit_1_01)))"
    by (simp add: lit_0_1_def lit_1_01_def)
  have d: "\<not> (f64_le (Finite 2) (Finite lit_0_1) \<or>
              (f64_less (Finite 1) (Finite 2) \<and> f64_less (Finite 2) (Finite lit_1_01)))"
    by (simp add: lit_0_1_def lit_1_01_def)
  from resize_validation [of fresh "Finite (3602879701896397 / 72057594037927936)"] a
  have 1: "resize fresh (Finite (3602879701896397 / 72057594037927936))
             = Return (Some InvalidModifier) fresh" by blast
  from resize_validation [of fresh "Finite (1131529406376837 / 1125899906842624)"] b
  have 2: "resize fresh (Finite (1131529406376837 / 1125899906842624))
             = Return (Some InvalidModifier) fresh" by blast
  from resize_validation [of fresh "Finite (1 / 2)"] c
  have 3: "resize fresh (Finite (1 / 2)) = Return None fresh" by blast
  from resize_validation [of fresh "Finite 2"] d
  have 4: "resize fresh (Finite 2) = Return None fresh" by blast
  from 1 2 3 4 show ?thesis by blast
qed

section \<open>The frame of the vertical flip\<close>

text \<open>
  C10. Whenever \<^verbatim>\<open>flipVertically\<close> returns nil, \<^verbatim>\<open>filepath\<close> and \<^verbatim>\<open>format\<close>
  are as before the call: the new state is the old one with \<^verbatim>\<open>data\<close> replaced.
\<close>
theorem flipVertically_frame:
  assumes "flipVertically i = Return None i'"
  shows "filepath i' = filepath i \<and> format i' = format i \<and> (\<exists>d'. i' = i\<lparr>data := Some d'\<rparr>)"
  using flipVertically_cases [of i] assms by auto

text \<open>The theorem at a tracked 1x2 picture.\<close>
theorem flipVertically_frame_witness:
  "\<exists>i'. flipVertically (tracked ''s.png'' ''png'' strip) = Return None i' \<and>
        filepath i' = ''s.png'' \<and> format i' = ''png''"
proof -
  have h1: "data (tracked ''s.png'' ''png'' strip) = Some strip"
    by (simp add: tracked_def)
  have h2: "decoded strip"
    by (simp add: strip_def grid_image_def decoded_def)
  from flipVertically_decoded [OF h1 h2]
  obtain r where r: "flipVertically (tracked ''s.png'' ''png'' strip)
      = Return None ((tracked ''s.png'' ''png'' strip)\<lparr>data := Some r\<rparr>)"
    by blast
  from flipVertically_frame [OF r] r show ?thesis
    by (auto simp: tracked_def)
qed

end
